theory Spec2Isabelle
  imports Complex_Main "HOL-Library.Sublist" "HOL-Library.Multiset"
begin

section \<open>The CadQuery retrieval-augmented generation pipeline (main.py)\<close>

text \<open>
  A shallow embedding of \<^verbatim>\<open>src/main.py\<close>. Python strings are \<^typ>\<open>string\<close>; an
  exception deriving from \<^verbatim>\<open>Exception\<close> is a value of type \<open>error\<close> and a fallible
  call returns \<open>error + 'a\<close> with \<open>Inl\<close> for the raise. The shared dictionary of a flow
  run is a record with one optional field per key the nodes use (\<open>None\<close>: the key is
  absent, so that indexing it raises \<^verbatim>\<open>KeyError\<close>). Everything outside the process
  (standard output, the logging stream, the notebook file) is the record \<open>world\<close>,
  passed through every phase that touches it. The vector store, the language model, the
  file system and the environment are collaborators: arbitrary functions collected in the
  record \<open>collaborators\<close>, over which every theorem quantifies. Similarity scores and
  temperatures are Python floats; they are modelled as reals, which is what their order
  is as long as no score is NaN.
\<close>

subsection \<open>Python string methods\<close>

text \<open>\<^verbatim>\<open>str.isspace\<close> on one character, for the code points below 256.\<close>

definition isspace :: "char \<Rightarrow> bool" where
  "isspace c = (c \<in> set [CHR 0x09, CHR 0x0A, CHR 0x0B, CHR 0x0C, CHR 0x0D, CHR 0x1C, CHR 0x1D,
      CHR 0x1E, CHR 0x1F, CHR 0x20, CHR 0x85, CHR 0xA0])"

text \<open>\<^verbatim>\<open>s.strip()\<close>: leading and trailing whitespace removed.\<close>

definition strip :: "string \<Rightarrow> string" where
  "strip s = rev (dropWhile isspace (rev (dropWhile isspace s)))"

text \<open>
  \<^verbatim>\<open>s.replace(old, new)\<close>: every non-overlapping occurrence of \<open>old\<close>, scanning from the
  left, becomes \<open>new\<close>; an empty \<open>old\<close> matches before every character and at the end.
\<close>

function replace :: "string \<Rightarrow> string \<Rightarrow> string \<Rightarrow> string" where
  "replace [] old new = (if old = [] then new else [])"
| "replace (c # cs) old new =
     (if old = [] then new @ c # replace cs old new
      else if prefix old (c # cs) then new @ replace (drop (length old) (c # cs)) old new
      else c # replace cs old new)"
  by pat_completeness auto
termination
  by (relation "measure (\<lambda>(s, old, new). length s)") auto

text \<open>
  \<^verbatim>\<open>sorted(xs, key=key, reverse=True)\<close>. CPython reverses the list, sorts it stably in
  ascending order and reverses the result, so that elements with equal keys keep their
  original order; \<^const>\<open>sort_key\<close> is a stable insertion sort.
\<close>

definition sorted_reverse :: "('a \<Rightarrow> 'k::linorder) \<Rightarrow> 'a list \<Rightarrow> 'a list" where
  "sorted_reverse key xs = rev (sort_key key (rev xs))"

subsection \<open>Data\<close>

datatype error = KeyError string | CollaboratorError string | OSError string

text \<open>\<^verbatim>\<open>d[k]\<close> on a dictionary entry: a missing key raises \<^verbatim>\<open>KeyError\<close>.\<close>

definition getitem :: "'a option \<Rightarrow> string \<Rightarrow> error + 'a" where
  "getitem entry k = (case entry of None \<Rightarrow> Inl (KeyError k) | Some v \<Rightarrow> Inr v)"

text \<open>A retrieved document: its text and its metadata dictionary.\<close>

record document =
  page_content :: string
  metadata :: "string \<rightharpoonup> string"

text \<open>The shared dictionary, one field per key.\<close>

record shared =
  query :: "string option"
  query_type :: "string option"
  task_steps :: "string option"
  "context" :: "string option"
  sources :: "string option list option"
  context_evaluation :: "string option"
  code_response :: "string option"
  code_verification :: "string option"

text \<open>The keyword arguments \<^verbatim>\<open>get_openai_model\<close> passes to the chat model's constructor.\<close>

record chat_openai =
  model :: string
  openai_api_key :: "string option"
  reasoning_effort :: string

text \<open>
  The notebook file \<^verbatim>\<open>./query/result.ipynb\<close>: absent, present with content that the
  notebook reader rejects, or a notebook of format version 4: its minor version and its
  list of cells. A cell has a type, a source text and, in the newer minor versions, an id.
\<close>

datatype cell_type = Code | Markdown | Raw

record cell =
  cell_type :: cell_type
  cell_id :: "string option"
  source :: string

record notebook =
  nbformat_minor :: nat
  cells :: "cell list"

datatype nb_file = Absent | Unreadable string | Notebook notebook

text \<open>
  Output is recorded by what is formatted into it: the line printed when the guideline
  file cannot be read, the info record of the Save node and the error record of the
  entry point.
\<close>

datatype printed = Error_loading_context_file error

datatype log_record = Info_response string "string option list" | Error_occurred error

record world =
  notebook_file :: nb_file
  fs_writable :: bool
  stdout :: "printed list"
  logging :: "log_record list"

record collaborators =
  similarity_search_with_score :: "string \<Rightarrow> nat \<Rightarrow> error + (document \<times> real) list"
  invoke :: "chat_openai \<Rightarrow> string \<Rightarrow> error + string"
  read_file :: "string \<Rightarrow> error + string"
  getenv :: "string \<Rightarrow> string option"
  fresh_cell_id :: "string option"
  current_nbformat_minor :: nat
  validated_id :: "notebook \<Rightarrow> nat \<Rightarrow> string option"

subsection \<open>The prompt template\<close>

text \<open>
  \<^verbatim>\<open>PROMPT_TEMPLATE\<close>, parsed as the template class parses it: three pieces of literal
  text around the two placeholders \<^verbatim>\<open>{context}\<close> and \<^verbatim>\<open>{question}\<close>. Formatting substitutes the keyword
  arguments; a placeholder without an argument raises \<^verbatim>\<open>KeyError\<close>. The role label the
  chat template puts in front of the message is the library's and is left out.
\<close>

datatype segment = Lit string | Var string

definition template_before_context :: string where
  \<open>template_before_context =
     ''\<newline>'' @
     ''You are an expert in CadQuery and Python. Given the following context, generate **only** valid, functional CadQuery code that follows best practices. Ensure the code does not contain syntax errors and is executable.\<newline>'' @
     ''\<newline>'' @
     ''Context:\<newline>''\<close>

definition template_before_question :: string where
  \<open>template_before_question =
     ''\<newline>'' @
     ''\<newline>'' @
     ''---\<newline>'' @
     ''\<newline>'' @
     ''Task: Generate CadQuery code for the following request:\<newline>''\<close>

definition template_after_question :: string where
  \<open>template_after_question =
     ''\<newline>'' @
     ''\<newline>'' @
     ''**Guidelines:**\<newline>'' @
     ''- Use `cq.Workplane` properly.\<newline>'' @
     ''- Ensure all operations are valid and logically ordered.\<newline>'' @
     ''- Include necessary imports (`import cadquery as cq`).\<newline>'' @
     ''- Do not include explanations, only return valid Python code.\<newline>'' @
     ''- If unsure, return the best possible attempt.\<newline>'' @
     ''- Use .circle().extrude() instead of .cylinder()\<newline>'' @
     ''- Use display(object) at the end of the script instead of show() or show_object()\<newline>'' @
     ''- If creating a symmetrical object, create half of it and use .mirror() to complete it.\<newline>'' @
     ''- Always ensure that objects are created at the origin (0, 0, 0) unless otherwise specified.\<newline>'' @
     ''\<newline>'' @
     ''Output only the CadQuery code:\<newline>''\<close>

definition PROMPT_TEMPLATE :: "segment list" where
  "PROMPT_TEMPLATE =
     [Lit template_before_context, Var ''context'', Lit template_before_question,
      Var ''question'', Lit template_after_question]"

fun format_template :: "segment list \<Rightarrow> (string \<rightharpoonup> string) \<Rightarrow> error + string" where
  "format_template [] kwargs = Inr []"
| "format_template (Lit s # rest) kwargs =
     (case format_template rest kwargs of Inl e \<Rightarrow> Inl e | Inr t \<Rightarrow> Inr (s @ t))"
| "format_template (Var v # rest) kwargs =
     (case kwargs v of
        None \<Rightarrow> Inl (KeyError v)
      | Some x \<Rightarrow> (case format_template rest kwargs of Inl e \<Rightarrow> Inl e | Inr t \<Rightarrow> Inr (x @ t)))"

subsection \<open>The model constructor\<close>

text \<open>
  \<^verbatim>\<open>get_openai_model(temperature=0.2)\<close>: the constructor call names the model, the API key
  and the reasoning effort; the parameter \<open>temperature\<close> does not occur in the body.
\<close>

definition get_openai_model :: "collaborators \<Rightarrow> real \<Rightarrow> chat_openai" where
  "get_openai_model c temperature =
     \<lparr>model = ''o3-mini'', openai_api_key = getenv c ''OPENAI_API_KEY'',
      reasoning_effort = ''medium''\<rparr>"

subsection \<open>RetrieveContext\<close>

definition build_base_context :: string where
  \<open>build_base_context =
     ''\<newline>'' @
     ''        ---\<newline>'' @
     ''        Example 1:\<newline>'' @
     ''        Request: Create a cylinder with a 1-inch diameter and 2-inch height.\<newline>'' @
     ''        Output:\<newline>'' @
     ''        import cadquery as cq\<newline>'' @
     ''        result = cq.Workplane("XY").cylinder("2", 0.5, centered=(True, True, False))\<newline>'' @
     ''        ---\<newline>'' @
     ''\<newline>'' @
     ''        Example 2:\<newline>'' @
     ''        Request: Create a nut with a 1/2 inch diameter.\<newline>'' @
     ''        Output:\<newline>'' @
     ''        import cadquery as cq\<newline>'' @
     ''        diameter = 0.5\<newline>'' @
     ''        height = 0.25\<newline>'' @
     ''        result = cq.Workplane("XY").circle(diameter / 2).extrude(height)\<newline>'' @
     ''        .faces("<Z").workplane().hole(diameter / 4)\<newline>'' @
     ''        ---\<newline>'' @
     ''        ''\<close>

definition RetrieveContext_prep :: "shared \<Rightarrow> error + string" where
  "RetrieveContext_prep sh = getitem (query sh) ''query''"

definition RetrieveContext_exec ::
  "collaborators \<Rightarrow> string \<Rightarrow> error + (document \<times> real) list" where
  "RetrieveContext_exec c q =
     (case similarity_search_with_score c q 5 of
        Inl e \<Rightarrow> Inl e
      | Inr results \<Rightarrow> Inr (sorted_reverse snd results))"

definition RetrieveContext_post ::
  "shared \<Rightarrow> string \<Rightarrow> (document \<times> real) list \<Rightarrow> shared \<times> string" where
  \<open>RetrieveContext_post sh prep_res exec_res =
     (sh\<lparr>context := Some (foldl (\<lambda>context_text chunk.
              context_text @ ''\<newline>\<newline>---\<newline>\<newline>'' @ page_content (fst chunk))
            build_base_context exec_res),
         sources := Some (map (\<lambda>chunk. metadata (fst chunk) ''id'') exec_res)\<rparr>,
      ''default'')\<close>

subsection \<open>GenerateCode\<close>

definition guidelines_path :: string where
  "guidelines_path = ''./documents/cadquery-improvement-guide.md''"

definition load_context_from_file :: "collaborators \<Rightarrow> string \<Rightarrow> world \<Rightarrow> string \<times> world" where
  "load_context_from_file c file_path w =
     (case read_file c file_path of
        Inr text \<Rightarrow> (text, w)
      | Inl e \<Rightarrow> (''No guidelines available.'',
                 w\<lparr>stdout := stdout w @ [Error_loading_context_file e]\<rparr>))"

definition GenerateCode_prep ::
  "collaborators \<Rightarrow> shared \<Rightarrow> world \<Rightarrow> (error + string) \<times> world" where
  "GenerateCode_prep c sh w =
     (case load_context_from_file c guidelines_path w of
        (guidelines, w') \<Rightarrow>
          (case getitem (query sh) ''query'' of
             Inl e \<Rightarrow> (Inl e, w')
           | Inr question \<Rightarrow>
               (format_template PROMPT_TEMPLATE
                  [''context'' \<mapsto> guidelines, ''question'' \<mapsto> question], w')))"

definition GenerateCode_exec :: "collaborators \<Rightarrow> string \<Rightarrow> error + string" where
  "GenerateCode_exec c prompt =
     (case invoke c (get_openai_model c 0.2) prompt of
        Inl e \<Rightarrow> Inl e
      | Inr content \<Rightarrow> Inr (strip content))"

definition GenerateCode_post :: "shared \<Rightarrow> string \<Rightarrow> string \<Rightarrow> shared \<times> string" where
  "GenerateCode_post sh prep_res exec_res = (sh\<lparr>code_response := Some exec_res\<rparr>, ''default'')"

subsection \<open>SaveToNotebook\<close>

definition SaveToNotebook_prep :: "shared \<Rightarrow> error + string \<times> string" where
  "SaveToNotebook_prep sh =
     (case getitem (query sh) ''query'' of
        Inl e \<Rightarrow> Inl e
      | Inr q \<Rightarrow> (case getitem (code_response sh) ''code_response'' of
                   Inl e \<Rightarrow> Inl e
                 | Inr r \<Rightarrow> Inr (q, r)))"

text \<open>
  The notebook library validates a notebook each time it reads one and each time it writes
  one. Validation does not raise there (what it finds is logged), but it sets cell ids:
  from minor version 5 on, a cell without an id is given a generated one. Which id the
  cell at a position has after validation is the library's choice, the collaborator
  \<open>validated_id\<close>; type and source of a cell, the order and the number of the cells and
  the minor version stay.
\<close>

definition validate :: "collaborators \<Rightarrow> notebook \<Rightarrow> notebook" where
  "validate c nb =
     nb\<lparr>cells := map (\<lambda>(i, x). x\<lparr>cell_id := validated_id c nb i\<rparr>) (enumerate 0 (cells nb))\<rparr>"


text \<open>\<^verbatim>\<open>nbf.v4.new_notebook()\<close>: no cells, at the library's current minor version.\<close>

definition new_notebook :: "collaborators \<Rightarrow> notebook" where
  "new_notebook c = \<lparr>nbformat_minor = current_nbformat_minor c, cells = []\<rparr>"

definition new_code_cell :: "collaborators \<Rightarrow> string \<Rightarrow> cell" where
  "new_code_cell c src = \<lparr>cell_type = Code, cell_id = fresh_cell_id c, source = src\<rparr>"

text \<open>
  The fence markup is removed from the response before anything touches the file system.
  \<^verbatim>\<open>os.makedirs\<close> is the first call that can raise: on a file system that cannot be
  written it raises and nothing has changed. An existing file that the reader rejects is
  replaced by a new notebook (the bare \<^verbatim>\<open>except\<close>); one that the reader accepts has
  been validated by it. The new cell's generated id, if the library gave it one, is
  deleted before the cell is appended, and the notebook is validated again when it is
  written.
\<close>

definition SaveToNotebook_exec ::
  "collaborators \<Rightarrow> string \<times> string \<Rightarrow> world \<Rightarrow> (error + bool) \<times> world" where
  \<open>SaveToNotebook_exec c inputs w =
     (case inputs of (query_text, response) \<Rightarrow>
        let code_response_py = strip (replace (replace response ''```python'' []) ''```'' [])
        in if \<not> fs_writable w then (Inl (OSError ''./query''), w)
           else
             let nb = (case notebook_file w of
                         Absent \<Rightarrow> new_notebook c
                       | Unreadable bytes \<Rightarrow> new_notebook c
                       | Notebook stored \<Rightarrow> validate c stored);
                 new_code = ''###'' @ replace query_text ''\<newline>'' ''\<newline>##'' @ ''\<newline>''
                              @ code_response_py;
                 new_cell = (new_code_cell c new_code)\<lparr>cell_id := None\<rparr>
             in (Inr True,
                 w\<lparr>notebook_file := Notebook (validate c (nb\<lparr>cells := cells nb @ [new_cell]\<rparr>))\<rparr>))\<close>

definition SaveToNotebook_post ::
  "shared \<Rightarrow> string \<times> string \<Rightarrow> bool \<Rightarrow> world \<Rightarrow> (error + shared \<times> string) \<times> world" where
  "SaveToNotebook_post sh prep_res exec_res w =
     (case getitem (code_response sh) ''code_response'' of
        Inl e \<Rightarrow> (Inl e, w)
      | Inr r \<Rightarrow> (case getitem (sources sh) ''sources'' of
                   Inl e \<Rightarrow> (Inl e, w)
                 | Inr ids \<Rightarrow> (Inr (sh, ''default''),
                               w\<lparr>logging := logging w @ [Info_response r ids]\<rparr>)))"

subsection \<open>EvaluateContext, DecomposeTask, AnalyzeQuery, VerifyCode\<close>

definition EvaluateContext_prep :: "shared \<Rightarrow> error + string \<times> string" where
  "EvaluateContext_prep sh =
     (case getitem (context sh) ''context'' of
        Inl e \<Rightarrow> Inl e
      | Inr ctx \<Rightarrow> (case getitem (query sh) ''query'' of
                     Inl e \<Rightarrow> Inl e
                   | Inr q \<Rightarrow> Inr (ctx, q)))"

definition EvaluateContext_exec :: "collaborators \<Rightarrow> string \<times> string \<Rightarrow> error + string" where
  \<open>EvaluateContext_exec c inputs =
     (case inputs of (ctx, q) \<Rightarrow>
        invoke c (get_openai_model c 0.0)
          (''Rate how relevant this context is to the query: '' @ q @ ''\<newline>\<newline>Context: '' @ ctx))\<close>

definition EvaluateContext_post ::
  "shared \<Rightarrow> string \<times> string \<Rightarrow> string \<Rightarrow> shared \<times> string" where
  "EvaluateContext_post sh prep_res exec_res =
     (sh\<lparr>context_evaluation := Some exec_res\<rparr>, ''default'')"

definition DecomposeTask_prep :: "shared \<Rightarrow> error + string" where
  "DecomposeTask_prep sh = getitem (query sh) ''query''"

definition DecomposeTask_exec :: "collaborators \<Rightarrow> string \<Rightarrow> error + string" where
  "DecomposeTask_exec c q =
     invoke c (get_openai_model c 0.3) (''Break down this CadQuery task into steps: '' @ q)"

definition DecomposeTask_post :: "shared \<Rightarrow> string \<Rightarrow> string \<Rightarrow> shared \<times> string" where
  "DecomposeTask_post sh prep_res exec_res = (sh\<lparr>task_steps := Some exec_res\<rparr>, ''default'')"

definition AnalyzeQuery_prep :: "shared \<Rightarrow> error + string" where
  "AnalyzeQuery_prep sh = getitem (query sh) ''query''"

definition AnalyzeQuery_exec :: "collaborators \<Rightarrow> string \<Rightarrow> error + string" where
  "AnalyzeQuery_exec c q =
     invoke c (get_openai_model c 0.1) (''Analyze the type of query: '' @ q)"

definition AnalyzeQuery_post :: "shared \<Rightarrow> string \<Rightarrow> string \<Rightarrow> shared \<times> string" where
  "AnalyzeQuery_post sh prep_res exec_res = (sh\<lparr>query_type := Some exec_res\<rparr>, ''default'')"

definition VerifyCode_prep :: "shared \<Rightarrow> error + string" where
  "VerifyCode_prep sh = getitem (code_response sh) ''code_response''"

definition VerifyCode_exec :: "collaborators \<Rightarrow> string \<Rightarrow> error + string" where
  \<open>VerifyCode_exec c response =
     invoke c (get_openai_model c 0.0)
       (''Verify the validity of the following CadQuery code:\<newline>\<newline>'' @ response)\<close>

definition VerifyCode_post :: "shared \<Rightarrow> string \<Rightarrow> string \<Rightarrow> shared \<times> string" where
  "VerifyCode_post sh prep_res exec_res =
     (sh\<lparr>code_verification := Some exec_res\<rparr>, ''default'')"

subsection \<open>The flow\<close>

text \<open>The seven node objects of \<^verbatim>\<open>create_cadquery_flow\<close>, named by their classes.\<close>

datatype node =
  RetrieveContext | AnalyzeQuery | DecomposeTask | EvaluateContext | GenerateCode | VerifyCode
  | SaveToNotebook

record flow =
  start_node :: node
  successors :: "node \<Rightarrow> string \<rightharpoonup> node"

type_synonym run_state = "shared \<times> world"

text \<open>
  Modelled from the spec: the node and flow engine is the imported flow library, which is
  not among the sources. An edge maps a source node and a label to a target node;
  \<^verbatim>\<open>a >> b\<close> registers the edge labelled \<^verbatim>\<open>default\<close> and \<^verbatim>\<open>a - "label" >> b\<close> the edge
  with that label.
\<close>

definition connect ::
  "node \<Rightarrow> string \<Rightarrow> node \<Rightarrow> (node \<Rightarrow> string \<rightharpoonup> node) \<Rightarrow> node \<Rightarrow> string \<rightharpoonup> node" where
  "connect src action tgt succs = succs(src := (succs src)(action \<mapsto> tgt))"

text \<open>
  Modelled from the spec: one activation of a node runs prepare, execute and finalize in
  this order; finalize receives the shared state and both earlier results and gives the
  new shared state and the transition label. An error raised in any phase leaves the
  activation at once: the shared state is as it was and the world is as that phase left
  it.
\<close>

definition run_phases ::
  "(shared \<Rightarrow> world \<Rightarrow> (error + 'p) \<times> world) \<Rightarrow> ('p \<Rightarrow> world \<Rightarrow> (error + 'e) \<times> world) \<Rightarrow>
   (shared \<Rightarrow> 'p \<Rightarrow> 'e \<Rightarrow> world \<Rightarrow> (error + shared \<times> string) \<times> world) \<Rightarrow>
   run_state \<Rightarrow> (error + string) \<times> run_state" where
  "run_phases prep_phase exec_phase post_phase st =
     (case st of (sh, w) \<Rightarrow>
        (case prep_phase sh w of
           (Inl e, w1) \<Rightarrow> (Inl e, sh, w1)
         | (Inr p, w1) \<Rightarrow>
             (case exec_phase p w1 of
                (Inl e, w2) \<Rightarrow> (Inl e, sh, w2)
              | (Inr r, w2) \<Rightarrow>
                  (case post_phase sh p r w2 of
                     (Inl e, w3) \<Rightarrow> (Inl e, sh, w3)
                   | (Inr (sh', action), w3) \<Rightarrow> (Inr action, sh', w3)))))"

text \<open>A phase that does not touch the world.\<close>

definition pure_phase :: "'a \<Rightarrow> world \<Rightarrow> 'a \<times> world" where
  "pure_phase r w = (r, w)"

text \<open>The activation of each node: its three methods, as defined above.\<close>

fun run_node :: "collaborators \<Rightarrow> node \<Rightarrow> run_state \<Rightarrow> (error + string) \<times> run_state" where
  "run_node c AnalyzeQuery st =
     run_phases (\<lambda>sh. pure_phase (AnalyzeQuery_prep sh))
       (\<lambda>p. pure_phase (AnalyzeQuery_exec c p))
       (\<lambda>sh p r. pure_phase (Inr (AnalyzeQuery_post sh p r))) st"
| "run_node c DecomposeTask st =
     run_phases (\<lambda>sh. pure_phase (DecomposeTask_prep sh))
       (\<lambda>p. pure_phase (DecomposeTask_exec c p))
       (\<lambda>sh p r. pure_phase (Inr (DecomposeTask_post sh p r))) st"
| "run_node c RetrieveContext st =
     run_phases (\<lambda>sh. pure_phase (RetrieveContext_prep sh))
       (\<lambda>p. pure_phase (RetrieveContext_exec c p))
       (\<lambda>sh p r. pure_phase (Inr (RetrieveContext_post sh p r))) st"
| "run_node c EvaluateContext st =
     run_phases (\<lambda>sh. pure_phase (EvaluateContext_prep sh))
       (\<lambda>p. pure_phase (EvaluateContext_exec c p))
       (\<lambda>sh p r. pure_phase (Inr (EvaluateContext_post sh p r))) st"
| "run_node c GenerateCode st =
     run_phases (GenerateCode_prep c)
       (\<lambda>p. pure_phase (GenerateCode_exec c p))
       (\<lambda>sh p r. pure_phase (Inr (GenerateCode_post sh p r))) st"
| "run_node c VerifyCode st =
     run_phases (\<lambda>sh. pure_phase (VerifyCode_prep sh))
       (\<lambda>p. pure_phase (VerifyCode_exec c p))
       (\<lambda>sh p r. pure_phase (Inr (VerifyCode_post sh p r))) st"
| "run_node c SaveToNotebook st =
     run_phases (\<lambda>sh. pure_phase (SaveToNotebook_prep sh))
       (SaveToNotebook_exec c) SaveToNotebook_post st"

text \<open>
  Modelled from the spec: the flow looks up the edge for the current node and the label it
  returned.
\<close>

definition get_next_node :: "flow \<Rightarrow> node \<Rightarrow> string \<Rightarrow> node option" where
  "get_next_node f current action = successors f current action"

text \<open>
  Modelled from the spec: starting at the start node, the flow activates the current node,
  follows the edge for its label and stops when there is none; an error in an activation
  leaves the run. There is no bound on the number of activations, so the run is a partial
  function: \<open>None\<close> is a run that never ends.
\<close>

partial_function (option) orch ::
  "collaborators \<Rightarrow> flow \<Rightarrow> node \<Rightarrow> run_state \<Rightarrow> ((error + string) \<times> run_state) option" where
  "orch c f current st =
     (case run_node c current st of
        (Inl e, st') \<Rightarrow> Some (Inl e, st')
      | (Inr action, st') \<Rightarrow>
          (case get_next_node f current action of
             None \<Rightarrow> Some (Inr action, st')
           | Some nxt \<Rightarrow> orch c f nxt st'))"

definition flow_run ::
  "collaborators \<Rightarrow> flow \<Rightarrow> run_state \<Rightarrow> ((error + string) \<times> run_state) option" where
  "flow_run c f st = orch c f (start_node f) st"

text \<open>\<^verbatim>\<open>create_cadquery_flow\<close>: the backbone, then the two back-edges, in the order written.\<close>

definition create_cadquery_flow :: flow where
  "create_cadquery_flow =
     \<lparr>start_node = AnalyzeQuery,
      successors = foldl (\<lambda>succs (src, action, tgt). connect src action tgt succs)
        (\<lambda>n. Map.empty)
        [(AnalyzeQuery, ''default'', DecomposeTask),
         (DecomposeTask, ''default'', RetrieveContext),
         (RetrieveContext, ''default'', EvaluateContext),
         (EvaluateContext, ''default'', GenerateCode),
         (GenerateCode, ''default'', VerifyCode),
         (VerifyCode, ''default'', SaveToNotebook),
         (EvaluateContext, ''insufficient_context'', RetrieveContext),
         (VerifyCode, ''invalid_code'', GenerateCode)]\<rparr>"

text \<open>The dictionary \<^verbatim>\<open>{"query": query_text}\<close>.\<close>

definition initial_shared :: "string \<Rightarrow> shared" where
  "initial_shared query_text =
     \<lparr>query = Some query_text, query_type = None, task_steps = None, context = None,
      sources = None, context_evaluation = None, code_response = None,
      code_verification = None\<rparr>"

text \<open>
  \<^verbatim>\<open>query_rag\<close>: the flow is run on the fresh dictionary; an exception leaving the run is
  logged and the function returns. The result is the world afterwards.
\<close>

definition query_rag :: "collaborators \<Rightarrow> string \<Rightarrow> world \<Rightarrow> world option" where
  "query_rag c query_text w =
     (case flow_run c create_cadquery_flow (initial_shared query_text, w) of
        None \<Rightarrow> None
      | Some (Inl e, sh, w') \<Rightarrow> Some (w'\<lparr>logging := logging w' @ [Error_occurred e]\<rparr>)
      | Some (Inr action, sh, w') \<Rightarrow> Some w')"

text \<open>
  The nodes in the order of the backbone, those of them that come before Save, and the
  run of a list of nodes one after the other up to the first error; used to say which
  node a failure comes from.
\<close>

definition backbone :: "node list" where
  "backbone = [AnalyzeQuery, DecomposeTask, RetrieveContext, EvaluateContext, GenerateCode,
     VerifyCode, SaveToNotebook]"

definition nodes_before_save :: "node list" where
  "nodes_before_save = [AnalyzeQuery, DecomposeTask, RetrieveContext, EvaluateContext,
     GenerateCode, VerifyCode]"

fun run_nodes :: "collaborators \<Rightarrow> node list \<Rightarrow> run_state \<Rightarrow> (error + string) \<times> run_state" where
  "run_nodes c [] st = (Inr ''default'', st)"
| "run_nodes c [n] st = run_node c n st"
| "run_nodes c (n # ns) st =
     (case run_node c n st of
        (Inl e, st') \<Rightarrow> (Inl e, st')
      | (Inr action, st') \<Rightarrow> run_nodes c ns st')"

subsection \<open>A mocked run\<close>

text \<open>
  Collaborators with fixed answers: the search returns three scored documents, the model
  answers every prompt with a fenced code block, the guideline file cannot be read and
  the notebook library gives a new cell an id, writes new notebooks at minor version 5 and,
  when it validates a notebook of minor version 5 or more, gives each cell without an id
  one made from its position. Variants: a search that fails, and a search that returns a
  document whose metadata has no \<^verbatim>\<open>id\<close>.
\<close>

definition docA :: document where
  "docA = \<lparr>page_content = ''docA'', metadata = [''id'' \<mapsto> ''A'']\<rparr>"

definition docB :: document where
  "docB = \<lparr>page_content = ''docB'', metadata = [''id'' \<mapsto> ''B'']\<rparr>"

definition docC :: document where
  "docC = \<lparr>page_content = ''docC'', metadata = [''id'' \<mapsto> ''C'']\<rparr>"

definition doc_untagged :: document where
  "doc_untagged = \<lparr>page_content = ''untagged'', metadata = [''source'' \<mapsto> ''guide.pdf'']\<rparr>"

definition fenced_response :: string where
  \<open>fenced_response = ''```python\<newline>import x\<newline>```''\<close>

definition mock_collaborators :: collaborators where
  "mock_collaborators =
     \<lparr>similarity_search_with_score = (\<lambda>q k. Inr [(docA, 0.9), (docB, 0.3), (docC, 0.6)]),
      invoke = (\<lambda>m prompt. Inr fenced_response),
      read_file = (\<lambda>path. Inl (OSError path)),
      getenv = (\<lambda>name. None),
      fresh_cell_id = Some ''c0ffee'',
      current_nbformat_minor = 5,
      validated_id = (\<lambda>nb i.
        case cell_id (cells nb ! i) of
          Some given \<Rightarrow> Some given
        | None \<Rightarrow> if 5 \<le> nbformat_minor nb then Some (''cell-'' @ replicate (Suc i) CHR ''i'')
                  else None)\<rparr>"

definition failing_search :: collaborators where
  "failing_search =
     mock_collaborators\<lparr>similarity_search_with_score :=
       (\<lambda>q k. Inl (CollaboratorError ''search failed''))\<rparr>"

definition untagged_search :: collaborators where
  "untagged_search =
     mock_collaborators\<lparr>similarity_search_with_score :=
       (\<lambda>q k. Inr [(docA, 0.9), (doc_untagged, 0.5)])\<rparr>"

definition empty_world :: world where
  "empty_world = \<lparr>notebook_file = Absent, fs_writable = True, stdout = [], logging = []\<rparr>"

definition earlier_cell :: cell where
  "earlier_cell = \<lparr>cell_type = Markdown, cell_id = Some ''a1'', source = ''# Results''\<rparr>"


section \<open>Properties\<close>

subsection \<open>Sorting and the assembled context\<close>

lemma sorted_reverse_descending:
  "sorted_wrt (\<lambda>a b. key b \<le> key a) (sorted_reverse key xs)"
proof -
  have "sorted (map key (sort_key key (rev xs)))" by (rule sorted_sort_key)
  then have "sorted_wrt (\<lambda>a b. key a \<le> key b) (sort_key key (rev xs))"
    by (simp add: sorted_map)
  then show ?thesis
    by (simp add: sorted_reverse_def sorted_wrt_rev)
qed

lemma sorted_reverse_mset: "mset (sorted_reverse key xs) = mset xs"
  by (simp add: sorted_reverse_def)

lemma sorted_reverse_stable:
  "filter (\<lambda>x. key x = k) (sorted_reverse key xs) = filter (\<lambda>x. key x = k) xs"
  by (simp add: sorted_reverse_def rev_filter [symmetric] sort_key_stable)

lemma sorted_reverse_length: "length (sorted_reverse key xs) = length xs"
  by (simp add: sorted_reverse_def)

lemma foldl_context:
  "foldl (\<lambda>context_text chunk. context_text @ sep @ f chunk) base chunks
     = base @ concat (map (\<lambda>chunk. sep @ f chunk) chunks)"
  by (induction chunks arbitrary: base) simp_all

lemma RetrieveContext_run:
  assumes "query sh = Some q" and "similarity_search_with_score c q 5 = Inr results"
  shows "run_node c RetrieveContext (sh, w) =
    (Inr ''default'', fst (RetrieveContext_post sh q (sorted_reverse snd results)), w)"
  using assms
  by (simp add: run_phases_def pure_phase_def RetrieveContext_prep_def RetrieveContext_exec_def
      getitem_def RetrieveContext_post_def)

subsection \<open>Every run follows the backbone\<close>

lemma run_node_default:
  assumes "run_node c n st = (Inr action, st')"
  shows "action = ''default''"
proof (cases st)
  case (Pair sh w)
  with assms show ?thesis
    by (cases n)
      (auto simp: run_phases_def pure_phase_def AnalyzeQuery_post_def DecomposeTask_post_def
        RetrieveContext_post_def EvaluateContext_post_def GenerateCode_post_def
        VerifyCode_post_def SaveToNotebook_post_def
        split: sum.splits prod.splits)
qed

lemma successors_backbone:
  "get_next_node create_cadquery_flow AnalyzeQuery ''default'' = Some DecomposeTask"
  "get_next_node create_cadquery_flow DecomposeTask ''default'' = Some RetrieveContext"
  "get_next_node create_cadquery_flow RetrieveContext ''default'' = Some EvaluateContext"
  "get_next_node create_cadquery_flow EvaluateContext ''default'' = Some GenerateCode"
  "get_next_node create_cadquery_flow GenerateCode ''default'' = Some VerifyCode"
  "get_next_node create_cadquery_flow VerifyCode ''default'' = Some SaveToNotebook"
  "get_next_node create_cadquery_flow SaveToNotebook action = None"
  by (simp_all add: get_next_node_def create_cadquery_flow_def connect_def)

lemma successors_back_edges:
  "get_next_node create_cadquery_flow EvaluateContext ''insufficient_context'' = Some RetrieveContext"
  "get_next_node create_cadquery_flow VerifyCode ''invalid_code'' = Some GenerateCode"
  by (simp_all add: get_next_node_def create_cadquery_flow_def connect_def)

lemma orch_last:
  "orch c create_cadquery_flow SaveToNotebook st = Some (run_nodes c [SaveToNotebook] st)"
  by (subst orch.simps) (simp add: successors_backbone split: prod.splits sum.splits)

lemma orch_step:
  assumes nxt: "get_next_node create_cadquery_flow n ''default'' = Some m"
    and rest: "\<And>st'. orch c create_cadquery_flow m st' = Some (run_nodes c (m # ns) st')"
  shows "orch c create_cadquery_flow n st = Some (run_nodes c (n # m # ns) st)"
proof -
  obtain r st' where run: "run_node c n st = (r, st')"
    by (cases "run_node c n st") auto
  show ?thesis
  proof (cases r)
    case (Inl e)
    with run show ?thesis by (subst orch.simps) simp
  next
    case (Inr action)
    with run have "action = ''default''" by (auto dest: run_node_default)
    with run Inr nxt rest show ?thesis by (subst orch.simps) simp
  qed
qed

lemma start_node_create_cadquery_flow: "start_node create_cadquery_flow = AnalyzeQuery"
  by (simp add: create_cadquery_flow_def)

lemma flow_run_backbone:
  "flow_run c create_cadquery_flow st = Some (run_nodes c backbone st)"
  unfolding flow_run_def backbone_def start_node_create_cadquery_flow
  by (intro orch_step successors_backbone orch_last)

subsection \<open>C1: the order of the passages in the assembled context\<close>

text \<open>
  C1, as the code has it. When the query is present and the search returns \<open>results\<close>, the
  Retrieve node succeeds with the label \<^verbatim>\<open>default\<close>, leaves the world alone, and sets
  \<^verbatim>\<open>context\<close> to the fixed worked-example preamble followed by the retrieved passages,
  each behind the separator, in the order \<open>chunks\<close>: a rearrangement of the returned
  pairs in descending score order (highest score first, lowest score last), pairs of
  equal score in the order the search returned them.
\<close>

theorem RetrieveContext_context_descending:
  assumes "query sh = Some q" and "similarity_search_with_score c q 5 = Inr results"
  shows "\<exists>sh' chunks.
    run_node c RetrieveContext (sh, w) = (Inr ''default'', sh', w) \<and>
    context sh' = Some (build_base_context @
      concat (map (\<lambda>chunk. ''\<newline>\<newline>---\<newline>\<newline>'' @ page_content (fst chunk)) chunks)) \<and>
    mset chunks = mset results \<and>
    sorted_wrt (\<lambda>a b. snd b \<le> snd a) chunks \<and>
    (\<forall>k. filter (\<lambda>chunk. snd chunk = k) chunks = filter (\<lambda>chunk. snd chunk = k) results)"
proof -
  let ?chunks = "sorted_reverse snd results"
  let ?sh' = "fst (RetrieveContext_post sh q ?chunks)"
  have "run_node c RetrieveContext (sh, w) = (Inr ''default'', ?sh', w)"
    using assms by (rule RetrieveContext_run)
  moreover have "context ?sh' = Some (build_base_context @
      concat (map (\<lambda>chunk. ''\<newline>\<newline>---\<newline>\<newline>'' @ page_content (fst chunk)) ?chunks))"
    unfolding RetrieveContext_post_def foldl_context by simp
  moreover have "mset ?chunks = mset results"
    by (rule sorted_reverse_mset)
  moreover have "sorted_wrt (\<lambda>a b. snd b \<le> snd a) ?chunks"
    by (rule sorted_reverse_descending)
  moreover have "\<forall>k. filter (\<lambda>chunk. snd chunk = k) ?chunks = filter (\<lambda>chunk. snd chunk = k) results"
    by (simp add: sorted_reverse_stable)
  ultimately show ?thesis by blast
qed

text \<open>The same at the mocked search of the three documents scored 0.9, 0.3 and 0.6.\<close>

theorem RetrieveContext_context_descending_witness:
  "query (initial_shared ''hollow cylinder'') = Some ''hollow cylinder'' \<and>
   similarity_search_with_score mock_collaborators ''hollow cylinder'' 5
     = Inr [(docA, 0.9), (docB, 0.3), (docC, 0.6)] \<and>
   (\<exists>sh' chunks.
      run_node mock_collaborators RetrieveContext (initial_shared ''hollow cylinder'', empty_world)
        = (Inr ''default'', sh', empty_world) \<and>
      context sh' = Some (build_base_context @
        concat (map (\<lambda>chunk. ''\<newline>\<newline>---\<newline>\<newline>'' @ page_content (fst chunk)) chunks)) \<and>
      mset chunks = mset [(docA, 0.9::real), (docB, 0.3), (docC, 0.6)] \<and>
      sorted_wrt (\<lambda>a b. snd b \<le> snd a) chunks)"
proof -
  have q: "query (initial_shared ''hollow cylinder'') = Some ''hollow cylinder''"
    by (simp add: initial_shared_def)
  have s: "similarity_search_with_score mock_collaborators ''hollow cylinder'' 5
      = Inr [(docA, 0.9), (docB, 0.3), (docC, 0.6)]"
    by (simp add: mock_collaborators_def)
  from RetrieveContext_context_descending [OF q s, of empty_world] q s show ?thesis
    by blast
qed

text \<open>
  C1 as stated, with ascending order, fails on the mocked search returning
  \<open>[(docA, 0.9), (docB, 0.3), (docC, 0.6)]\<close>: after the preamble the context holds docA,
  then docC, then docB, and not docB, docC, docA.
\<close>

theorem RetrieveContext_context_counterexample:
  \<open>similarity_search_with_score mock_collaborators ''hollow cylinder'' 5
     = Inr [(docA, 0.9), (docB, 0.3), (docC, 0.6)] \<and>
   context (fst (snd (run_node mock_collaborators RetrieveContext
       (initial_shared ''hollow cylinder'', empty_world))))
     = Some (build_base_context @
         ''\<newline>\<newline>---\<newline>\<newline>docA\<newline>\<newline>---\<newline>\<newline>docC\<newline>\<newline>---\<newline>\<newline>docB'') \<and>
   context (fst (snd (run_node mock_collaborators RetrieveContext
       (initial_shared ''hollow cylinder'', empty_world))))
     \<noteq> Some (build_base_context @
         ''\<newline>\<newline>---\<newline>\<newline>docB\<newline>\<newline>---\<newline>\<newline>docC\<newline>\<newline>---\<newline>\<newline>docA'')\<close>
  by (simp add: mock_collaborators_def initial_shared_def run_phases_def pure_phase_def
      RetrieveContext_prep_def RetrieveContext_exec_def RetrieveContext_post_def getitem_def
      sorted_reverse_def docA_def docB_def docC_def)

subsection \<open>C2 and C10: the identifiers recorded in \<^verbatim>\<open>sources\<close>\<close>

text \<open>
  C2, as the code has it. When the query is present and the search returns \<open>results\<close>,
  the Retrieve node succeeds and sets \<^verbatim>\<open>sources\<close> to the identifiers of the returned
  pairs in the order \<open>chunks\<close> in which the execute phase hands them on: descending
  score, equal scores in the order returned, which is the order of the passages in
  \<^verbatim>\<open>context\<close>. Its length is the number of returned pairs.
\<close>

theorem RetrieveContext_sources_order:
  assumes "query sh = Some q" and "similarity_search_with_score c q 5 = Inr results"
  shows "\<exists>sh' chunks ids.
    run_node c RetrieveContext (sh, w) = (Inr ''default'', sh', w) \<and>
    mset chunks = mset results \<and>
    sorted_wrt (\<lambda>a b. snd b \<le> snd a) chunks \<and>
    (\<forall>k. filter (\<lambda>chunk. snd chunk = k) chunks = filter (\<lambda>chunk. snd chunk = k) results) \<and>
    sources sh' = Some ids \<and>
    ids = map (\<lambda>chunk. metadata (fst chunk) ''id'') chunks \<and>
    length ids = length results"
proof -
  let ?chunks = "sorted_reverse snd results"
  let ?sh' = "fst (RetrieveContext_post sh q ?chunks)"
  have "run_node c RetrieveContext (sh, w) = (Inr ''default'', ?sh', w)"
    using assms by (rule RetrieveContext_run)
  moreover have "sources ?sh' = Some (map (\<lambda>chunk. metadata (fst chunk) ''id'') ?chunks)"
    by (simp add: RetrieveContext_post_def)
  moreover have "length (map (\<lambda>chunk. metadata (fst chunk) ''id'') ?chunks) = length results"
    by (simp add: sorted_reverse_length)
  moreover note sorted_reverse_mset [of snd results] sorted_reverse_descending [of snd results]
  moreover have "\<forall>k. filter (\<lambda>chunk. snd chunk = k) ?chunks = filter (\<lambda>chunk. snd chunk = k) results"
    by (simp add: sorted_reverse_stable)
  ultimately show ?thesis by blast
qed

text \<open>
  The same at the mocked search of the three documents scored 0.9, 0.3 and 0.6.
\<close>

theorem RetrieveContext_sources_order_witness:
  "query (initial_shared ''mug'') = Some ''mug'' \<and>
   similarity_search_with_score mock_collaborators ''mug'' 5
     = Inr [(docA, 0.9), (docB, 0.3), (docC, 0.6)] \<and>
   (\<exists>sh' chunks ids.
      run_node mock_collaborators RetrieveContext (initial_shared ''mug'', empty_world)
        = (Inr ''default'', sh', empty_world) \<and>
      mset chunks = mset [(docA, 0.9::real), (docB, 0.3), (docC, 0.6)] \<and>
      sorted_wrt (\<lambda>a b. snd b \<le> snd a) chunks \<and>
      sources sh' = Some ids \<and>
      ids = map (\<lambda>chunk. metadata (fst chunk) ''id'') chunks \<and>
      length ids = 3)"
proof -
  have q: "query (initial_shared ''mug'') = Some ''mug''"
    by (simp add: initial_shared_def)
  have s: "similarity_search_with_score mock_collaborators ''mug'' 5
      = Inr [(docA, 0.9), (docB, 0.3), (docC, 0.6)]"
    by (simp add: mock_collaborators_def)
  from RetrieveContext_sources_order [OF q s, of empty_world] obtain sh' chunks ids where
    "run_node mock_collaborators RetrieveContext (initial_shared ''mug'', empty_world)
        = (Inr ''default'', sh', empty_world)"
    "mset chunks = mset [(docA, 0.9::real), (docB, 0.3), (docC, 0.6)]"
    "sorted_wrt (\<lambda>a b. snd b \<le> snd a) chunks"
    "sources sh' = Some ids"
    "ids = map (\<lambda>chunk. metadata (fst chunk) ''id'') chunks"
    "length ids = length [(docA, 0.9::real), (docB, 0.3), (docC, 0.6)]"
    by blast
  with q s show ?thesis by auto
qed

text \<open>
  C2 as stated, with the order in which the search returned the pairs, fails on the
  mocked search returning \<open>[(docA, 0.9), (docB, 0.3), (docC, 0.6)]\<close>: the identifiers in
  that order are A, B, C, and \<^verbatim>\<open>sources\<close> is A, C, B.
\<close>

theorem RetrieveContext_sources_counterexample:
  "similarity_search_with_score mock_collaborators ''mug'' 5
     = Inr [(docA, 0.9), (docB, 0.3), (docC, 0.6)] \<and>
   metadata docA ''id'' = Some ''A'' \<and> metadata docB ''id'' = Some ''B'' \<and>
   metadata docC ''id'' = Some ''C'' \<and>
   sources (fst (snd (run_node mock_collaborators RetrieveContext
       (initial_shared ''mug'', empty_world))))
     = Some [Some ''A'', Some ''C'', Some ''B''] \<and>
   sources (fst (snd (run_node mock_collaborators RetrieveContext
       (initial_shared ''mug'', empty_world))))
     \<noteq> Some [Some ''A'', Some ''B'', Some ''C'']"
  by (simp add: mock_collaborators_def initial_shared_def run_phases_def pure_phase_def
      RetrieveContext_prep_def RetrieveContext_exec_def RetrieveContext_post_def getitem_def
      sorted_reverse_def docA_def docB_def docC_def)

text \<open>
  C10. When the query is present and the search returns \<open>results\<close>, the Retrieve node
  succeeds whatever the metadata hold, and \<^verbatim>\<open>sources\<close> has one element for each returned
  pair: at every position the result of looking \<^verbatim>\<open>id\<close> up in the metadata of the pair
  at that position, which is \<open>None\<close> where the metadata have no \<^verbatim>\<open>id\<close>.
\<close>

theorem RetrieveContext_sources_missing_id:
  assumes "query sh = Some q" and "similarity_search_with_score c q 5 = Inr results"
  shows "\<exists>sh' chunks ids.
    run_node c RetrieveContext (sh, w) = (Inr ''default'', sh', w) \<and>
    mset chunks = mset results \<and>
    sources sh' = Some ids \<and>
    length ids = length results \<and>
    length chunks = length results \<and>
    (\<forall>i < length results. ids ! i = metadata (fst (chunks ! i)) ''id'') \<and>
    (\<forall>i < length results. ''id'' \<notin> dom (metadata (fst (chunks ! i))) \<longrightarrow> ids ! i = None)"
proof -
  let ?chunks = "sorted_reverse snd results"
  let ?ids = "map (\<lambda>chunk. metadata (fst chunk) ''id'') ?chunks"
  let ?sh' = "fst (RetrieveContext_post sh q ?chunks)"
  have len: "length ?chunks = length results"
    by (rule sorted_reverse_length)
  have "run_node c RetrieveContext (sh, w) = (Inr ''default'', ?sh', w)"
    using assms by (rule RetrieveContext_run)
  moreover have "sources ?sh' = Some ?ids"
    by (simp add: RetrieveContext_post_def)
  moreover have "length ?ids = length results"
    using len by simp
  moreover have nth: "\<forall>i < length results. ?ids ! i = metadata (fst (?chunks ! i)) ''id''"
    using len by simp
  moreover have "\<forall>i < length results.
      ''id'' \<notin> dom (metadata (fst (?chunks ! i))) \<longrightarrow> ?ids ! i = None"
    using nth by (auto simp: domIff)
  moreover note sorted_reverse_mset [of snd results] len
  ultimately show ?thesis by blast
qed

text \<open>
  The same at a search returning one document with an identifier and one without: the
  node succeeds and \<^verbatim>\<open>sources\<close> is the identifier followed by \<open>None\<close>.
\<close>

theorem RetrieveContext_sources_missing_id_witness:
  "query (initial_shared ''mug'') = Some ''mug'' \<and>
   similarity_search_with_score untagged_search ''mug'' 5
     = Inr [(docA, 0.9), (doc_untagged, 0.5)] \<and>
   ''id'' \<notin> dom (metadata doc_untagged) \<and>
   fst (run_node untagged_search RetrieveContext (initial_shared ''mug'', empty_world))
     = Inr ''default'' \<and>
   sources (fst (snd (run_node untagged_search RetrieveContext
       (initial_shared ''mug'', empty_world))))
     = Some [Some ''A'', None]"
proof -
  have q: "query (initial_shared ''mug'') = Some ''mug''"
    by (simp add: initial_shared_def)
  have s: "similarity_search_with_score untagged_search ''mug'' 5
      = Inr [(docA, 0.9), (doc_untagged, 0.5)]"
    by (simp add: untagged_search_def)
  have run: "run_node untagged_search RetrieveContext (initial_shared ''mug'', empty_world) =
      (Inr ''default'',
       fst (RetrieveContext_post (initial_shared ''mug'') ''mug'' [(docA, 0.9), (doc_untagged, 0.5)]),
       empty_world)"
    using RetrieveContext_run [OF q s, of empty_world] by (simp add: sorted_reverse_def)
  have label: "fst (run_node untagged_search RetrieveContext (initial_shared ''mug'', empty_world))
      = Inr ''default''"
    by (simp only: run fst_conv)
  have ids: "sources (fst (snd (run_node untagged_search RetrieveContext
      (initial_shared ''mug'', empty_world)))) = Some [Some ''A'', None]"
    by (simp only: run) (simp add: RetrieveContext_post_def docA_def doc_untagged_def)
  have untagged: "''id'' \<notin> dom (metadata doc_untagged)"
    by (simp add: doc_untagged_def)
  from RetrieveContext_sources_missing_id [OF q s, of empty_world] q s label ids untagged
  show ?thesis by blast
qed

subsection \<open>C3: the labels of Evaluate and Verify\<close>

text \<open>
  C3. Whatever the evaluation text and the verification text are, the finalize phases of
  the Evaluate node and of the Verify node return the label \<^verbatim>\<open>default\<close>, never
  \<^verbatim>\<open>insufficient_context\<close> or \<^verbatim>\<open>invalid_code\<close>. The graph does register the two
  back-edges under those labels, but the edges looked up for the labels that are returned
  lead on to Generate and to Save.
\<close>

theorem Evaluate_Verify_always_default:
  "snd (EvaluateContext_post sh inputs evaluation) = ''default'' \<and>
   snd (VerifyCode_post sh' response verification) = ''default'' \<and>
   snd (EvaluateContext_post sh inputs evaluation) \<noteq> ''insufficient_context'' \<and>
   snd (VerifyCode_post sh' response verification) \<noteq> ''invalid_code'' \<and>
   successors create_cadquery_flow EvaluateContext ''insufficient_context'' = Some RetrieveContext \<and>
   successors create_cadquery_flow VerifyCode ''invalid_code'' = Some GenerateCode \<and>
   successors create_cadquery_flow EvaluateContext
     (snd (EvaluateContext_post sh inputs evaluation)) = Some GenerateCode \<and>
   successors create_cadquery_flow VerifyCode
     (snd (VerifyCode_post sh' response verification)) = Some SaveToNotebook"
  by (simp add: EvaluateContext_post_def VerifyCode_post_def create_cadquery_flow_def
      connect_def)

subsection \<open>C4: the temperature parameter\<close>

text \<open>
  C4, what the code does. The model constructed is the same for every temperature: for
  the 0.2 of Generate, the 0.0 of Evaluate and Verify, the 0.3 of Decompose and the 0.1 of
  Analyze. The Generate node calls the very model a request for temperature zero builds.
\<close>

theorem get_openai_model_ignores_temperature:
  "get_openai_model c temperature = get_openai_model c temperature' \<and>
   get_openai_model c 0.2 = get_openai_model c 0.0 \<and>
   get_openai_model c 0.3 = get_openai_model c 0.0 \<and>
   get_openai_model c 0.1 = get_openai_model c 0.0 \<and>
   GenerateCode_exec c prompt =
     (case invoke c (get_openai_model c 0.0) prompt of
        Inl e \<Rightarrow> Inl e | Inr content \<Rightarrow> Inr (strip content))"
  by (simp add: get_openai_model_def GenerateCode_exec_def)

subsection \<open>C5: the prompt of Generate depends on the query only\<close>

text \<open>
  C5. The prepare phase of the Generate node gives the same prompt (and the same output)
  on any two shared states that agree on \<^verbatim>\<open>query\<close>, whatever their other entries.
\<close>

theorem GenerateCode_prep_only_query:
  assumes "query sh1 = query sh2"
  shows "GenerateCode_prep c sh1 w = GenerateCode_prep c sh2 w"
  using assms by (simp add: GenerateCode_prep_def)

text \<open>
  Two shared states with the same query that differ in \<^verbatim>\<open>query_type\<close>,
  \<^verbatim>\<open>task_steps\<close>, \<^verbatim>\<open>context\<close> and \<^verbatim>\<open>context_evaluation\<close>.
\<close>

theorem GenerateCode_prep_only_query_witness:
  "query (initial_shared ''mug'') =
     query ((initial_shared ''mug'')\<lparr>query_type := Some ''design'', task_steps := Some ''1. sketch'',
        context := Some ''passages'', context_evaluation := Some ''relevant''\<rparr>) \<and>
   initial_shared ''mug'' \<noteq>
     (initial_shared ''mug'')\<lparr>query_type := Some ''design'', task_steps := Some ''1. sketch'',
        context := Some ''passages'', context_evaluation := Some ''relevant''\<rparr> \<and>
   GenerateCode_prep mock_collaborators (initial_shared ''mug'') empty_world =
     GenerateCode_prep mock_collaborators
       ((initial_shared ''mug'')\<lparr>query_type := Some ''design'', task_steps := Some ''1. sketch'',
          context := Some ''passages'', context_evaluation := Some ''relevant''\<rparr>) empty_world"
proof -
  let ?sh2 = "(initial_shared ''mug'')\<lparr>query_type := Some ''design'',
    task_steps := Some ''1. sketch'', context := Some ''passages'',
    context_evaluation := Some ''relevant''\<rparr>"
  have q: "query (initial_shared ''mug'') = query ?sh2"
    by simp
  have "context (initial_shared ''mug'') \<noteq> context ?sh2"
    by (simp add: initial_shared_def)
  then have "initial_shared ''mug'' \<noteq> ?sh2"
    by metis
  with q GenerateCode_prep_only_query [OF q, of mock_collaborators empty_world]
  show ?thesis by blast
qed

subsection \<open>C9: the fallback for the guidelines\<close>

text \<open>
  Formatting the template with both keyword arguments succeeds and puts them between the
  three pieces of text.
\<close>

lemma format_PROMPT_TEMPLATE:
  "format_template PROMPT_TEMPLATE [''context'' \<mapsto> guidelines, ''question'' \<mapsto> question] =
     Inr (template_before_context @ guidelines @ template_before_question @ question
       @ template_after_question)"
  by (simp add: PROMPT_TEMPLATE_def)

text \<open>
  C9. When reading the guideline file raises, \<^verbatim>\<open>load_context_from_file\<close> prints the
  error and returns \<^verbatim>\<open>No guidelines available.\<close>; the prepare phase of the Generate node
  succeeds with the prompt that has this placeholder in the place of the guidelines; and
  if the model then answers, the node ends with the label \<^verbatim>\<open>default\<close> and the stripped
  answer stored as \<^verbatim>\<open>code_response\<close>.
\<close>

theorem GenerateCode_fallback_guidelines:
  assumes "read_file c guidelines_path = Inl e" and "query sh = Some q"
  shows "load_context_from_file c guidelines_path w =
      (''No guidelines available.'', w\<lparr>stdout := stdout w @ [Error_loading_context_file e]\<rparr>) \<and>
    GenerateCode_prep c sh w =
      (Inr (template_before_context @ ''No guidelines available.'' @ template_before_question
          @ q @ template_after_question),
       w\<lparr>stdout := stdout w @ [Error_loading_context_file e]\<rparr>) \<and>
    (\<forall>content.
       invoke c (get_openai_model c 0.2)
         (template_before_context @ ''No guidelines available.'' @ template_before_question
           @ q @ template_after_question) = Inr content \<longrightarrow>
       run_node c GenerateCode (sh, w) =
         (Inr ''default'', sh\<lparr>code_response := Some (strip content)\<rparr>,
          w\<lparr>stdout := stdout w @ [Error_loading_context_file e]\<rparr>))"
proof -
  have load: "load_context_from_file c guidelines_path w =
      (''No guidelines available.'', w\<lparr>stdout := stdout w @ [Error_loading_context_file e]\<rparr>)"
    using assms(1) by (simp add: load_context_from_file_def)
  have prep: "GenerateCode_prep c sh w =
      (Inr (template_before_context @ ''No guidelines available.'' @ template_before_question
          @ q @ template_after_question),
       w\<lparr>stdout := stdout w @ [Error_loading_context_file e]\<rparr>)"
    unfolding GenerateCode_prep_def load format_PROMPT_TEMPLATE
    using assms(2) by (simp add: getitem_def)
  have "run_node c GenerateCode (sh, w) =
         (Inr ''default'', sh\<lparr>code_response := Some (strip content)\<rparr>,
          w\<lparr>stdout := stdout w @ [Error_loading_context_file e]\<rparr>)"
    if "invoke c (get_openai_model c 0.2)
         (template_before_context @ ''No guidelines available.'' @ template_before_question
           @ q @ template_after_question) = Inr content" for content
    using that
    by (simp add: run_phases_def prep pure_phase_def GenerateCode_exec_def GenerateCode_post_def)
  with load prep show ?thesis by blast
qed

text \<open>
  The same with the mocked collaborators, whose guideline file cannot be read.
\<close>

theorem GenerateCode_fallback_guidelines_witness:
  "read_file mock_collaborators guidelines_path = Inl (OSError guidelines_path) \<and>
   query (initial_shared ''mug'') = Some ''mug'' \<and>
   GenerateCode_prep mock_collaborators (initial_shared ''mug'') empty_world =
      (Inr (template_before_context @ ''No guidelines available.'' @ template_before_question
          @ ''mug'' @ template_after_question),
       empty_world\<lparr>stdout := stdout empty_world
          @ [Error_loading_context_file (OSError guidelines_path)]\<rparr>) \<and>
   run_node mock_collaborators GenerateCode (initial_shared ''mug'', empty_world) =
      (Inr ''default'', (initial_shared ''mug'')\<lparr>code_response := Some (strip fenced_response)\<rparr>,
       empty_world\<lparr>stdout := stdout empty_world
          @ [Error_loading_context_file (OSError guidelines_path)]\<rparr>)"
proof -
  have r: "read_file mock_collaborators guidelines_path = Inl (OSError guidelines_path)"
    by (simp add: mock_collaborators_def)
  have q: "query (initial_shared ''mug'') = Some ''mug''"
    by (simp add: initial_shared_def)
  have i: "invoke mock_collaborators (get_openai_model mock_collaborators 0.2)
         (template_before_context @ ''No guidelines available.'' @ template_before_question
           @ ''mug'' @ template_after_question) = Inr fenced_response"
    by (simp add: mock_collaborators_def)
  from GenerateCode_fallback_guidelines [OF r q, of empty_world] r q i show ?thesis
    by blast
qed

subsection \<open>C6: Save appends one entry\<close>



text \<open>
  The last cell of a validated notebook is the last cell it was given, up to its id.
\<close>

lemma validate_snoc:
  assumes "cells nb = xs @ [x]"
  shows "\<exists>ys given. cells (validate c nb) = ys @ [x\<lparr>cell_id := given\<rparr>]"
  using assms by (simp add: validate_def enumerate_append_eq) blast


text \<open>
  What the execute phase of the Save node writes on a file system that can be written.
\<close>

lemma SaveToNotebook_exec_writable:
  assumes "fs_writable w"
  shows "SaveToNotebook_exec c (query_text, response) w =
    (Inr True,
     w\<lparr>notebook_file := Notebook (validate c
        ((case notebook_file w of
            Absent \<Rightarrow> new_notebook c
          | Unreadable bytes \<Rightarrow> new_notebook c
          | Notebook stored \<Rightarrow> validate c stored)
         \<lparr>cells := cells (case notebook_file w of
              Absent \<Rightarrow> new_notebook c
            | Unreadable bytes \<Rightarrow> new_notebook c
            | Notebook stored \<Rightarrow> validate c stored) @
            [\<lparr>cell_type = Code, cell_id = None,
              source = ''###'' @ replace query_text ''\<newline>'' ''\<newline>##'' @ ''\<newline>''
                @ strip (replace (replace response ''```python'' []) ''```'' [])\<rparr>]\<rparr>))\<rparr>)"
  using assms by (simp add: SaveToNotebook_exec_def new_code_cell_def Let_def)




subsection \<open>C7: the fence markup is stripped\<close>

text \<open>
  The fence markup around \<^verbatim>\<open>import x\<close> is removed and the line breaks left behind are
  stripped.
\<close>

lemma fenced_code_body:
  \<open>strip (replace (replace ''```python\<newline>import x\<newline>```'' ''```python'' []) ''```'' [])
     = ''import x''\<close>
  by (simp add: strip_def isspace_def)

text \<open>
  C7. For the response \<^verbatim>\<open>```python\nimport x\n```\<close>, on a file system that can be
  written, the last cell of the notebook the Save node writes is a code cell that holds
  the label made of the query, a line break and then exactly \<^verbatim>\<open>import x\<close>.
\<close>

theorem SaveToNotebook_strips_fences:
  assumes "fs_writable w"
  shows \<open>\<exists>minor prior given.
    SaveToNotebook_exec c (query_text, ''```python\<newline>import x\<newline>```'') w =
      (Inr True,
       w\<lparr>notebook_file := Notebook
          \<lparr>nbformat_minor = minor,
           cells = prior @
             [\<lparr>cell_type = Code, cell_id = given,
               source = ''###'' @ replace query_text ''\<newline>'' ''\<newline>##'' @ ''\<newline>''
                 @ ''import x''\<rparr>]\<rparr>\<rparr>)\<close>
proof -
  define new where \<open>new = \<lparr>cell_type = Code, cell_id = None,
    source = ''###'' @ replace query_text ''\<newline>'' ''\<newline>##'' @ ''\<newline>'' @ ''import x''\<rparr>\<close>
  define nb where "nb = (case notebook_file w of
      Absent \<Rightarrow> new_notebook c
    | Unreadable bytes \<Rightarrow> new_notebook c
    | Notebook stored \<Rightarrow> validate c stored)"
  define written where "written = validate c (nb\<lparr>cells := cells nb @ [new]\<rparr>)"
  have run: \<open>SaveToNotebook_exec c (query_text, ''```python\<newline>import x\<newline>```'') w =
      (Inr True, w\<lparr>notebook_file := Notebook written\<rparr>)\<close>
    unfolding written_def nb_def new_def
    using SaveToNotebook_exec_writable [OF assms, of c query_text]
    by (simp only: fenced_code_body)
  have "cells (nb\<lparr>cells := cells nb @ [new]\<rparr>) = cells nb @ [new]"
    by simp
  from validate_snoc [OF this] obtain prior given where
    "cells written = prior @ [new\<lparr>cell_id := given\<rparr>]"
    unfolding written_def by blast
  then have "written = \<lparr>nbformat_minor = nbformat_minor written,
      cells = prior @ [new\<lparr>cell_id := given\<rparr>]\<rparr>"
    by (cases written) simp
  with run have \<open>SaveToNotebook_exec c (query_text, ''```python\<newline>import x\<newline>```'') w =
      (Inr True, w\<lparr>notebook_file := Notebook \<lparr>nbformat_minor = nbformat_minor written,
         cells = prior @ [new\<lparr>cell_id := given\<rparr>]\<rparr>\<rparr>)\<close>
    by simp
  moreover have \<open>new\<lparr>cell_id := given\<rparr> = \<lparr>cell_type = Code, cell_id = given,
      source = ''###'' @ replace query_text ''\<newline>'' ''\<newline>##'' @ ''\<newline>'' @ ''import x''\<rparr>\<close>
    by (simp add: new_def)
  ultimately show ?thesis
    by (simp only:) blast
qed

text \<open>
  The scenario of the query \<^verbatim>\<open>hollow cylinder\<close> on an absent notebook file.
\<close>

theorem SaveToNotebook_strips_fences_witness:
  \<open>fs_writable empty_world \<and>
   SaveToNotebook_exec mock_collaborators (''hollow cylinder'', ''```python\<newline>import x\<newline>```'')
       empty_world
     = (Inr True, empty_world\<lparr>notebook_file := Notebook
          \<lparr>nbformat_minor = 5,
           cells = [\<lparr>cell_type = Code, cell_id = Some ''cell-i'',
                     source = ''###hollow cylinder\<newline>import x''\<rparr>]\<rparr>\<rparr>)\<close>
proof -
  have w: "fs_writable empty_world"
    by (simp add: empty_world_def)
  from SaveToNotebook_strips_fences [OF w, where c = mock_collaborators
      and query_text = "''hollow cylinder''"] w
  show ?thesis
    by (simp add: SaveToNotebook_exec_def new_code_cell_def new_notebook_def validate_def
        strip_def isspace_def empty_world_def mock_collaborators_def)
qed

subsection \<open>C8: errors in the run are caught and leave the notebook alone\<close>

text \<open>
  Only the Save node writes the notebook file: the activation of any other node, whether
  it succeeds or raises, leaves the file as it was.
\<close>

lemma run_node_keeps_notebook:
  assumes "n \<noteq> SaveToNotebook" and "run_node c n (sh, w) = (r, sh', w')"
  shows "notebook_file w' = notebook_file w"
  using assms
  by (cases n)
    (auto simp: run_phases_def pure_phase_def GenerateCode_prep_def load_context_from_file_def
      split: sum.splits prod.splits)

lemma run_node_keeps_notebook_state:
  assumes "n \<noteq> SaveToNotebook" and "run_node c n st = (r, st')"
  shows "notebook_file (snd st') = notebook_file (snd st)"
proof -
  obtain sh w sh' w' where "st = (sh, w)" and "st' = (sh', w')"
    by (cases st, cases st') auto
  with assms run_node_keeps_notebook [of n c sh w r sh' w'] show ?thesis
    by simp
qed

lemma run_nodes_keeps_notebook:
  assumes "SaveToNotebook \<notin> set ns" and "run_nodes c ns st = (r, st')"
  shows "notebook_file (snd st') = notebook_file (snd st)"
  using assms
proof (induction c ns st arbitrary: r st' rule: run_nodes.induct)
  case (1 c st)
  then show ?case by simp
next
  case (2 c n st)
  then have "n \<noteq> SaveToNotebook" and "run_node c n st = (r, st')"
    by auto
  then show ?case by (rule run_node_keeps_notebook_state)
next
  case (3 c n m ns st)
  obtain r1 st1 where step: "run_node c n st = (r1, st1)"
    by (cases "run_node c n st") auto
  from "3.prems" have n: "n \<noteq> SaveToNotebook" and rest: "SaveToNotebook \<notin> set (m # ns)"
    by auto
  from n step have keep: "notebook_file (snd st1) = notebook_file (snd st)"
    by (rule run_node_keeps_notebook_state)
  show ?case
  proof (cases r1)
    case (Inl e)
    with step "3.prems"(2) keep show ?thesis by simp
  next
    case (Inr action)
    with step "3.prems"(2) have "run_nodes c (m # ns) st1 = (r, st')" by simp
    with "3.IH" step Inr rest have "notebook_file (snd st') = notebook_file (snd st1)"
      by simp
    with keep show ?thesis by simp
  qed
qed

text \<open>
  Running a list of nodes and then one more.
\<close>

lemma run_nodes_snoc:
  "ns \<noteq> [] \<Longrightarrow> run_nodes c (ns @ [n]) st =
     (case run_nodes c ns st of
        (Inl e, st') \<Rightarrow> (Inl e, st')
      | (Inr action, st') \<Rightarrow> run_node c n st')"
proof (induction c ns st rule: run_nodes.induct)
  case (1 c st)
  then show ?case by simp
next
  case (2 c m st)
  show ?case by (simp split: prod.splits sum.splits)
next
  case (3 c m k ns st)
  then show ?case
    by (auto split: prod.splits sum.splits)
qed

lemma backbone_snoc: "backbone = nodes_before_save @ [SaveToNotebook]"
  by (simp add: backbone_def nodes_before_save_def)

text \<open>
  C8. For every query, whatever the collaborators do, \<^verbatim>\<open>query_rag\<close> returns. If the run
  of the flow raises an error, \<^verbatim>\<open>query_rag\<close> returns the world the run left with the
  error record appended to the log. If the error comes from a node before Save, then it
  is the error the run raises, and the notebook file is the one from before the run.
\<close>

theorem query_rag_catches_errors:
  "(\<exists>w'. query_rag c query_text w = Some w') \<and>
   (\<forall>e sh1 w1.
      flow_run c create_cadquery_flow (initial_shared query_text, w) = Some (Inl e, sh1, w1) \<longrightarrow>
      query_rag c query_text w = Some (w1\<lparr>logging := logging w1 @ [Error_occurred e]\<rparr>)) \<and>
   (\<forall>e sh1 w1.
      run_nodes c nodes_before_save (initial_shared query_text, w) = (Inl e, sh1, w1) \<longrightarrow>
      flow_run c create_cadquery_flow (initial_shared query_text, w) = Some (Inl e, sh1, w1) \<and>
      query_rag c query_text w = Some (w1\<lparr>logging := logging w1 @ [Error_occurred e]\<rparr>) \<and>
      notebook_file w1 = notebook_file w)"
proof (intro conjI allI impI)
  show "\<exists>w'. query_rag c query_text w = Some w'"
    by (simp add: query_rag_def flow_run_backbone split: prod.splits sum.splits)
next
  fix e sh1 w1
  assume "flow_run c create_cadquery_flow (initial_shared query_text, w) = Some (Inl e, sh1, w1)"
  then show "query_rag c query_text w = Some (w1\<lparr>logging := logging w1 @ [Error_occurred e]\<rparr>)"
    by (simp add: query_rag_def)
next
  fix e sh1 w1
  assume early: "run_nodes c nodes_before_save (initial_shared query_text, w) = (Inl e, sh1, w1)"
  have "run_nodes c backbone (initial_shared query_text, w) = (Inl e, sh1, w1)"
    unfolding backbone_snoc using early
    by (subst run_nodes_snoc) (simp_all add: nodes_before_save_def)
  then show run: "flow_run c create_cadquery_flow (initial_shared query_text, w)
      = Some (Inl e, sh1, w1)"
    by (simp add: flow_run_backbone)
  then show "query_rag c query_text w = Some (w1\<lparr>logging := logging w1 @ [Error_occurred e]\<rparr>)"
    by (simp add: query_rag_def)
  have "SaveToNotebook \<notin> set nodes_before_save"
    by (simp add: nodes_before_save_def)
  from run_nodes_keeps_notebook [OF this early] show "notebook_file w1 = notebook_file w"
    by simp
qed

text \<open>
  The same with a search that fails, on a notebook that holds one earlier cell: Analyze
  and Decompose have run, Retrieve raises, the error is logged and the notebook still holds
  that cell alone.
\<close>

theorem query_rag_catches_errors_witness:
  "run_nodes failing_search nodes_before_save
       (initial_shared ''mug'', empty_world\<lparr>notebook_file := Notebook \<lparr>nbformat_minor = 5, cells = [earlier_cell]\<rparr>\<rparr>)
     = (Inl (CollaboratorError ''search failed''),
        (initial_shared ''mug'')\<lparr>query_type := Some fenced_response,
           task_steps := Some fenced_response\<rparr>,
        empty_world\<lparr>notebook_file := Notebook \<lparr>nbformat_minor = 5, cells = [earlier_cell]\<rparr>\<rparr>) \<and>
   query_rag failing_search ''mug'' (empty_world\<lparr>notebook_file := Notebook \<lparr>nbformat_minor = 5, cells = [earlier_cell]\<rparr>\<rparr>)
     = Some (empty_world\<lparr>notebook_file := Notebook \<lparr>nbformat_minor = 5, cells = [earlier_cell]\<rparr>,
          logging := [Error_occurred (CollaboratorError ''search failed'')]\<rparr>)"
proof -
  let ?w = "empty_world\<lparr>notebook_file := Notebook \<lparr>nbformat_minor = 5, cells = [earlier_cell]\<rparr>\<rparr>"
  let ?sh = "(initial_shared ''mug'')\<lparr>query_type := Some fenced_response,
    task_steps := Some fenced_response\<rparr>"
  have early: "run_nodes failing_search nodes_before_save (initial_shared ''mug'', ?w)
      = (Inl (CollaboratorError ''search failed''), ?sh, ?w)"
    by (simp add: nodes_before_save_def run_phases_def pure_phase_def getitem_def
        AnalyzeQuery_prep_def AnalyzeQuery_exec_def AnalyzeQuery_post_def
        DecomposeTask_prep_def DecomposeTask_exec_def DecomposeTask_post_def
        RetrieveContext_prep_def RetrieveContext_exec_def
        failing_search_def mock_collaborators_def initial_shared_def)
  have "query_rag failing_search ''mug'' ?w
      = Some (?w\<lparr>logging := logging ?w @ [Error_occurred (CollaboratorError ''search failed'')]\<rparr>)"
    using query_rag_catches_errors [of failing_search "''mug''" ?w] early by blast
  with early show ?thesis
    by (simp add: empty_world_def)
qed

text \<open>
  The mocked run from start to finish, for comparison: no node raises, Save is reached and
  the notebook holds the one new cell.
\<close>

lemma query_rag_mocked_run:
  \<open>query_rag mock_collaborators ''hollow cylinder'' empty_world =
     Some \<lparr>notebook_file = Notebook \<lparr>nbformat_minor = 5,
              cells = [\<lparr>cell_type = Code, cell_id = Some ''cell-i'',
                source = ''###hollow cylinder\<newline>import x''\<rparr>]\<rparr>,
           fs_writable = True,
           stdout = [Error_loading_context_file (OSError guidelines_path)],
           logging = [Info_response fenced_response [Some ''A'', Some ''C'', Some ''B'']]\<rparr>\<close>
proof -
  have strip_fenced: "strip fenced_response = fenced_response"
    by (simp add: strip_def isspace_def fenced_response_def)
  have body: "strip (replace (replace fenced_response ''```python'' []) ''```'' []) = ''import x''"
    by (simp add: strip_def isspace_def fenced_response_def)
  have "run_nodes mock_collaborators backbone (initial_shared ''hollow cylinder'', empty_world) =
      (Inr ''default'',
       \<lparr>query = Some ''hollow cylinder'', query_type = Some fenced_response,
        task_steps = Some fenced_response,
        context = Some (foldl (\<lambda>context_text chunk.
              context_text @ ''\<newline>\<newline>---\<newline>\<newline>'' @ page_content (fst chunk))
            build_base_context [(docA, 0.9), (docC, 0.6), (docB, 0.3)]),
        sources = Some [Some ''A'', Some ''C'', Some ''B''],
        context_evaluation = Some fenced_response, code_response = Some fenced_response,
        code_verification = Some fenced_response\<rparr>,
       \<lparr>notebook_file = Notebook \<lparr>nbformat_minor = 5,
              cells = [\<lparr>cell_type = Code, cell_id = Some ''cell-i'',
                source = ''###hollow cylinder\<newline>import x''\<rparr>]\<rparr>,
        fs_writable = True,
        stdout = [Error_loading_context_file (OSError guidelines_path)],
        logging = [Info_response fenced_response [Some ''A'', Some ''C'', Some ''B'']]\<rparr>)"
    by (simp add: backbone_def run_phases_def pure_phase_def getitem_def
        AnalyzeQuery_prep_def AnalyzeQuery_exec_def AnalyzeQuery_post_def
        DecomposeTask_prep_def DecomposeTask_exec_def DecomposeTask_post_def
        RetrieveContext_prep_def RetrieveContext_exec_def RetrieveContext_post_def
        EvaluateContext_prep_def EvaluateContext_exec_def EvaluateContext_post_def
        GenerateCode_prep_def GenerateCode_exec_def GenerateCode_post_def
        load_context_from_file_def format_PROMPT_TEMPLATE strip_fenced
        VerifyCode_prep_def VerifyCode_exec_def VerifyCode_post_def
        SaveToNotebook_prep_def SaveToNotebook_exec_def SaveToNotebook_post_def body
        new_code_cell_def new_notebook_def validate_def sorted_reverse_def
        mock_collaborators_def initial_shared_def empty_world_def docA_def docB_def docC_def)
  then show ?thesis
    by (simp add: query_rag_def flow_run_backbone)
qed

end
